theory Spec2Isabelle
  imports Main
begin

section \<open>KladosJobDO: the job lifecycle controller\<close>

text \<open>
  A shallow embedding of the Durable Object \<^verbatim>\<open>KladosJobDO\<close>: its SQLite table
  \<^verbatim>\<open>job_state\<close>, its single alarm slot, and the three entry points
  \<^verbatim>\<open>handleStart\<close>, \<^verbatim>\<open>handleStatus\<close> and \<^verbatim>\<open>alarm\<close>.

  Storage (\<^verbatim>\<open>sql.exec\<close>, \<^verbatim>\<open>setAlarm\<close>) is the explicit state; its writes do not
  fail, and reading one row with \<^verbatim>\<open>.one()\<close> throws when the table is empty.
  Every other call the controller makes (the log recorder, the processing callback, the
  entity store, the flow interpreter) is an external collaborator: its outcome, a return
  value or a thrown value, is an input of the model. Each collaborator is called at most
  once in one invocation of \<^verbatim>\<open>alarm\<close>, so one outcome per collaborator and invocation
  describes every behaviour. Every collaborator call and every SQL write is appended to a
  trace, in program order.
\<close>

subsection \<open>Values of the source\<close>

datatype JobStatus = st_accepted | st_processing | st_done | st_error

text \<open>The text stored in column \<^verbatim>\<open>status\<close>.\<close>

fun status_text :: "JobStatus \<Rightarrow> string" where
  "status_text st_accepted = ''accepted''"
| "status_text st_processing = ''processing''"
| "status_text st_done = ''done''"
| "status_text st_error = ''error''"

record KladosJobConfig =
  agentId :: string
  agentVersion :: string
  authToken :: string

text \<open>
  \<^verbatim>\<open>KladosRequest\<close> is a type of the rhiza package; these are the fields the
  controller reads. An optional field is an \<open>option\<close>.
\<close>

record RhizaContext =
  rhiza_id :: string
  path :: "string list option"
  parent_logs :: "string list option"
  batch :: "string option"
  scatter_total :: "nat option"

record KladosRequest =
  job_id :: string
  target_entity :: "string option"
  target_entities :: "string list option"
  target_collection :: string
  job_collection :: string
  api_base :: string
  network :: string
  rhiza :: "RhizaContext option"

text \<open>
  One row of table \<^verbatim>\<open>job_state\<close>. Columns \<^verbatim>\<open>request\<close> and \<^verbatim>\<open>config\<close> hold
  \<^verbatim>\<open>JSON.stringify\<close> of the payloads and are read back with \<^verbatim>\<open>JSON.parse\<close>; the
  model stores the payloads themselves.
\<close>

record job_row =
  request :: KladosRequest
  config :: KladosJobConfig
  log_id :: string
  log_file_id :: "string option"
  status :: JobStatus
  created_at :: string
  error :: "string option"

text \<open>A thrown value: an \<^verbatim>\<open>Error\<close> with its message, or any other value with its
  \<^verbatim>\<open>String(...)\<close> rendering.\<close>

datatype thrown = ErrorObj string | OtherValue string

text \<open>\<^verbatim>\<open>error instanceof Error ? error.message : String(error)\<close>\<close>

fun error_message :: "thrown \<Rightarrow> string" where
  "error_message (ErrorObj m) = m"
| "error_message (OtherValue v) = v"

datatype 'a outcome = Throws thrown | Returns 'a

datatype log_message = LogMessage string string "(string \<times> string) list"

record ProcessResult =
  outputs :: "string list option"
  reschedule :: "bool option"

datatype then_spec = ThenSpec string

record FlowStep =
  then_directive :: "then_spec option"

text \<open>An entity as far as the controller reads it: \<^verbatim>\<open>properties.flow\<close>, an object from
  step names to steps, or undefined.\<close>

record entity =
  flow :: "(string \<times> FlowStep) list option"

datatype api_error = ApiError string

text \<open>The \<^verbatim>\<open>{ data, error }\<close> pair returned by \<^verbatim>\<open>client.api.GET\<close>.\<close>

record api_response =
  resp_data :: "entity option"
  resp_error :: "api_error option"

datatype handoff_record = HandoffRecord string

record HandoffResult =
  handoffRecord :: "handoff_record option"
  action :: string
  target :: string
  targetType :: string

record received =
  recv_target_entity :: "string option"
  recv_target_entities :: "string list option"
  recv_target_collection :: string
  recv_from_logs :: "string list option"
  recv_batch :: "string option"
  recv_scatter_total :: "nat option"

record KladosLogEntry =
  entry_id :: string
  entry_type :: string
  entry_klados_id :: string
  entry_rhiza_id :: "string option"
  entry_job_id :: string
  entry_started_at :: string
  entry_status :: string
  entry_received :: received

subsection \<open>State and trace\<close>

datatype event =
    SqlInsert job_row
  | SqlSetStatus JobStatus
  | SqlSetLogFileId string
  | SqlSetError string
  | SetAlarm nat
  | WriteKladosLog string KladosLogEntry "log_message list"
  | ProcessJob KladosRequest
  | GetEntity string
  | InterpretThen then_spec "string list" string
  | UpdateLogWithHandoffs string "handoff_record list"
  | UpdateLogStatus string string "log_message list"
  | FailKlados string thrown "log_message list"

text \<open>
  The actor's durable state: table \<^verbatim>\<open>job_state\<close> keyed by column \<^verbatim>\<open>id\<close>, the alarm
  slot (the time last given to \<^verbatim>\<open>setAlarm\<close>, in milliseconds), and the trace.
\<close>

record do_state =
  job_state :: "int \<rightharpoonup> job_row"
  alarm_at :: "nat option"
  effects :: "event list"

definition init_state :: do_state where
  "init_state = \<lparr>job_state = Map.empty, alarm_at = None, effects = []\<rparr>"

definition emit :: "event \<Rightarrow> do_state \<Rightarrow> do_state" where
  "emit ev s = s\<lparr>effects := effects s @ [ev]\<rparr>"

text \<open>\<^verbatim>\<open>UPDATE job_state SET ... WHERE id = 1\<close>: changes row 1 when it exists.\<close>

definition sql_update :: "(job_row \<Rightarrow> job_row) \<Rightarrow> do_state \<Rightarrow> do_state" where
  "sql_update f s =
     (case job_state s 1 of
        None \<Rightarrow> s
      | Some r \<Rightarrow> s\<lparr>job_state := (job_state s)(1 \<mapsto> f r)\<rparr>)"

definition sql_set_status :: "JobStatus \<Rightarrow> do_state \<Rightarrow> do_state" where
  "sql_set_status st s = sql_update (\<lambda>r. r\<lparr>status := st\<rparr>) (emit (SqlSetStatus st) s)"

definition sql_set_log_file_id :: "string \<Rightarrow> do_state \<Rightarrow> do_state" where
  "sql_set_log_file_id f s =
     sql_update (\<lambda>r. r\<lparr>log_file_id := Some f\<rparr>) (emit (SqlSetLogFileId f) s)"

text \<open>\<^verbatim>\<open>UPDATE job_state SET status = 'error', error = ? WHERE id = 1\<close>\<close>

definition sql_set_error :: "string \<Rightarrow> do_state \<Rightarrow> do_state" where
  "sql_set_error m s =
     sql_update (\<lambda>r. r\<lparr>status := st_error, error := Some m\<rparr>) (emit (SqlSetError m) s)"

definition sql_insert :: "job_row \<Rightarrow> do_state \<Rightarrow> do_state" where
  "sql_insert r s = (emit (SqlInsert r) s)\<lparr>job_state := (job_state s)(1 \<mapsto> r)\<rparr>"

text \<open>\<^verbatim>\<open>ctx.storage.setAlarm(t)\<close>: one slot, a new time replaces the pending one.\<close>

definition setAlarm :: "nat \<Rightarrow> do_state \<Rightarrow> do_state" where
  "setAlarm t s = (emit (SetAlarm t) s)\<lparr>alarm_at := Some t\<rparr>"

text \<open>
  \<^verbatim>\<open>sql.exec('SELECT ... FROM job_state WHERE id = 1').one()\<close>. The cursor's
  \<^verbatim>\<open>one()\<close> belongs to the runtime: it returns the row when the query has exactly one
  and throws when it has none. The source tests what it returns for a missing row, so
  the result is an \<open>option\<close>; the runtime never returns the missing row.
\<close>

definition no_rows_error :: thrown where
  "no_rows_error = ErrorObj ''Expected exactly one result from SQL query, but got no results.''"

definition select_one :: "do_state \<Rightarrow> job_row option outcome" where
  "select_one s =
     (case job_state s 1 of
        None \<Rightarrow> Throws no_rows_error
      | Some row \<Rightarrow> Returns (Some row))"

subsection \<open>Responses\<close>

datatype json = JNull | JBool bool | JString string

datatype response =
    JsonResponse nat "(string \<times> json) list"
  | TextResponse nat string

definition accept_response :: "KladosRequest \<Rightarrow> response" where
  "accept_response req =
     JsonResponse 200 [(''accepted'', JBool True), (''job_id'', JString (job_id req))]"

subsection \<open>handleStart\<close>

text \<open>What \<^verbatim>\<open>handleStart\<close> reads from outside: \<^verbatim>\<open>generateId()\<close>, the clock.\<close>

record start_env =
  generated_id :: string
  start_iso :: string
  start_ms :: nat

text \<open>Lines 102 to 140. \<open>Throws\<close> as the result is an exception that leaves the
  handler: nothing in \<^verbatim>\<open>handleStart\<close> catches.\<close>

definition handleStart ::
  "start_env \<Rightarrow> KladosRequest \<Rightarrow> KladosJobConfig \<Rightarrow> do_state
     \<Rightarrow> response outcome \<times> do_state" where
  "handleStart env kladosRequest cfg s =
     (case select_one s of
        Throws e \<Rightarrow> (Throws e, s)
      | Returns existing \<Rightarrow>
          (case existing of
             Some row \<Rightarrow> (Returns (accept_response kladosRequest), s)
           | None \<Rightarrow>
               (let logId = ''log_'' @ generated_id env;
                    s1 = sql_insert
                           \<lparr>request = kladosRequest, config = cfg, log_id = logId,
                            log_file_id = None, status = st_accepted,
                            created_at = start_iso env, error = None\<rparr> s;
                    s2 = setAlarm (start_ms env + 100) s1
                in (Returns (accept_response kladosRequest), s2))))"

subsection \<open>handleStatus\<close>

text \<open>Lines 145 to 155.\<close>

definition handleStatus :: "do_state \<Rightarrow> response outcome" where
  "handleStatus s =
     (case select_one s of
        Throws e \<Rightarrow> Throws e
      | Returns r \<Rightarrow>
          (case r of
             None \<Rightarrow> Returns (JsonResponse 404 [(''status'', JString ''not_found'')])
           | Some row \<Rightarrow>
               Returns
                 (JsonResponse 200
                    [(''status'', JString (status_text (status row))),
                     (''error'',
                      (case error row of None \<Rightarrow> JNull | Some m \<Rightarrow> JString m))])))"

subsection \<open>alarm\<close>

text \<open>
  What one invocation of \<^verbatim>\<open>alarm\<close> reads from outside: the clock and the outcome of
  each collaborator call, should the call be made. \<open>processJob_messages\<close> are the
  messages the callback sends to the logger before it returns or throws. The callback
  keeps its checkpoints in tables of its own and leaves table \<^verbatim>\<open>job_state\<close> alone.
\<close>

record alarm_env =
  now_ms :: nat
  now_iso :: string
  writeKladosLog :: "string outcome"
  processJob :: "ProcessResult outcome"
  processJob_messages :: "log_message list"
  api_get_entity :: "api_response outcome"
  interpretThen :: "HandoffResult outcome"
  updateLogWithHandoffs :: "unit outcome"
  updateLogStatus :: "unit outcome"
  failKlados :: "unit outcome"

text \<open>JavaScript truthiness of a \<^verbatim>\<open>string | null\<close>: \<^verbatim>\<open>null\<close> and \<^verbatim>\<open>""\<close> are falsy.\<close>

definition truthy :: "string option \<Rightarrow> bool" where
  "truthy v = (case v of None \<Rightarrow> False | Some x \<Rightarrow> x \<noteq> [])"

text \<open>The state and the logger's messages, threaded through one invocation.\<close>

type_synonym frame = "do_state \<times> log_message list"

definition make_log_entry :: "alarm_env \<Rightarrow> job_row \<Rightarrow> KladosLogEntry" where
  "make_log_entry env row =
     (let req = request row in
      \<lparr>entry_id = log_id row,
       entry_type = ''klados_log'',
       entry_klados_id = agentId (config row),
       entry_rhiza_id = map_option rhiza_id (rhiza req),
       entry_job_id = job_id req,
       entry_started_at = now_iso env,
       entry_status = ''running'',
       entry_received =
         \<lparr>recv_target_entity = target_entity req,
          recv_target_entities = target_entities req,
          recv_target_collection = target_collection req,
          recv_from_logs = Option.bind (rhiza req) parent_logs,
          recv_batch = Option.bind (rhiza req) batch,
          recv_scatter_total = Option.bind (rhiza req) scatter_total\<rparr>\<rparr>)"

text \<open>Lines 188 to 225: the initial log is written when the row read at entry has no
  \<^verbatim>\<open>log_file_id\<close>. Returns the local \<^verbatim>\<open>logFileId\<close>.\<close>

definition write_initial_log :: "alarm_env \<Rightarrow> job_row \<Rightarrow> frame \<Rightarrow> string outcome \<times> frame" where
  "write_initial_log env row fr =
     (case fr of (s, lg) \<Rightarrow>
        (case (if truthy (log_file_id row) then log_file_id row else None) of
           Some logFileId \<Rightarrow> (Returns logFileId, fr)
         | None \<Rightarrow>
             (let s1 = emit (WriteKladosLog (job_collection (request row))
                               (make_log_entry env row) lg) s
              in (case writeKladosLog env of
                    Throws e \<Rightarrow> (Throws e, (s1, lg))
                  | Returns fileId \<Rightarrow>
                      (Returns fileId, (sql_set_log_file_id fileId s1, lg))))))"

text \<open>Lines 227 to 233.\<close>

definition call_processJob :: "alarm_env \<Rightarrow> job_row \<Rightarrow> frame \<Rightarrow> ProcessResult outcome \<times> frame" where
  "call_processJob env row fr =
     (case fr of (s, lg) \<Rightarrow>
        (processJob env, (emit (ProcessJob (request row)) s, lg @ processJob_messages env)))"

text \<open>\<^verbatim>\<open>request.rhiza.path?.at(-1)\<close>\<close>

definition current_step_name :: "RhizaContext \<Rightarrow> string option" where
  "current_step_name rz =
     (case path rz of
        None \<Rightarrow> None
      | Some p \<Rightarrow> if p = [] then None else Some (last p))"

text \<open>Lines 253 to 258: the continuation directive of the current step,
  \<^verbatim>\<open>flow[currentStepName]?.then\<close>, when the step name is truthy and the flow is there.\<close>

definition current_directive :: "RhizaContext \<Rightarrow> entity \<Rightarrow> then_spec option" where
  "current_directive rz rhizaEntity =
     (case (current_step_name rz, flow rhizaEntity) of
        (Some currentStepName, Some fl) \<Rightarrow>
          if currentStepName = [] then None
          else (case map_of fl currentStepName of
                  None \<Rightarrow> None
                | Some myStep \<Rightarrow> then_directive myStep)
      | _ \<Rightarrow> None)"

text \<open>Lines 258 to 287: the step has a continuation directive.\<close>

definition run_interpretThen ::
  "alarm_env \<Rightarrow> then_spec \<Rightarrow> string list \<Rightarrow> string \<Rightarrow> frame \<Rightarrow> unit outcome \<times> frame" where
  "run_interpretThen env directive outs logFileId fr =
     (case fr of (s, lg) \<Rightarrow>
        (let s1 = emit (InterpretThen directive outs logFileId) s in
         (case interpretThen env of
            Throws e \<Rightarrow> (Throws e, (s1, lg))
          | Returns handoffResult \<Rightarrow>
              (let lg' = lg @ [LogMessage ''info'' (''Handoff: '' @ action handoffResult)
                                 [(''target'', target handoffResult),
                                  (''targetType'', targetType handoffResult)]]
               in (case handoffRecord handoffResult of
                     None \<Rightarrow> (Returns (), (s1, lg'))
                   | Some hr \<Rightarrow>
                       (let s2 = emit (UpdateLogWithHandoffs logFileId [hr]) s1 in
                        (case updateLogWithHandoffs env of
                           Throws e \<Rightarrow> (Throws e, (s2, lg))
                         | Returns u \<Rightarrow> (Returns (), (s2, lg')))))))))"

text \<open>Lines 242 to 289: the workflow handoff. An array is truthy even when empty, so
  \<^verbatim>\<open>result.outputs\<close> is tested for presence only.\<close>

definition handoff ::
  "alarm_env \<Rightarrow> job_row \<Rightarrow> string \<Rightarrow> ProcessResult \<Rightarrow> frame \<Rightarrow> unit outcome \<times> frame" where
  "handoff env row logFileId result fr =
     (case fr of (s, lg) \<Rightarrow>
       (case (rhiza (request row), outputs result) of
          (Some rz, Some outs) \<Rightarrow>
            (let s1 = emit (GetEntity (rhiza_id rz)) s in
            (case api_get_entity env of
               Throws e \<Rightarrow> (Throws e, (s1, lg))
             | Returns resp \<Rightarrow>
                 (case (resp_error resp, resp_data resp) of
                    (None, Some rhizaEntity) \<Rightarrow>
                      (case current_directive rz rhizaEntity of
                         None \<Rightarrow> (Returns (), (s1, lg))
                       | Some directive \<Rightarrow>
                           run_interpretThen env directive outs logFileId (s1, lg))
                  | _ \<Rightarrow>
                      (Throws (ErrorObj (''Failed to fetch rhiza: '' @ rhiza_id rz)), (s1, lg)))))
        | _ \<Rightarrow> (Returns (), fr)))"

text \<open>Lines 291 to 297.\<close>

definition finalize_log :: "alarm_env \<Rightarrow> string \<Rightarrow> frame \<Rightarrow> unit outcome \<times> frame" where
  "finalize_log env logFileId fr =
     (case fr of (s, lg) \<Rightarrow>
        (let lg1 = lg @ [LogMessage ''success'' ''Job completed'' []];
             s1 = emit (UpdateLogStatus logFileId ''done'' lg1) s
         in (case updateLogStatus env of
               Throws e \<Rightarrow> (Throws e, (s1, lg1))
             | Returns u \<Rightarrow> (Returns (), (sql_set_status st_done s1, lg1)))))"

text \<open>Lines 235 to 297: what follows the callback's return. A truthy \<^verbatim>\<open>reschedule\<close>
  sets the alarm one second ahead and returns.\<close>

definition after_processJob ::
  "alarm_env \<Rightarrow> job_row \<Rightarrow> string \<Rightarrow> ProcessResult \<Rightarrow> frame \<Rightarrow> unit outcome \<times> frame" where
  "after_processJob env row logFileId result fr =
     (case fr of (s, lg) \<Rightarrow>
        if reschedule result = Some True then
          (Returns (),
           (setAlarm (now_ms env + 1000) s,
            lg @ [LogMessage ''info'' ''Rescheduling for continued processing'' []]))
        else
          (case handoff env row logFileId result fr of
             (Throws e, fr1) \<Rightarrow> (Throws e, fr1)
           | (Returns u, fr1) \<Rightarrow> finalize_log env logFileId fr1))"

text \<open>Lines 187 to 298: the body of the \<^verbatim>\<open>try\<close> block.\<close>

definition alarm_try :: "alarm_env \<Rightarrow> job_row \<Rightarrow> frame \<Rightarrow> unit outcome \<times> frame" where
  "alarm_try env row fr =
     (case write_initial_log env row fr of
        (Throws e, fr1) \<Rightarrow> (Throws e, fr1)
      | (Returns logFileId, fr1) \<Rightarrow>
          (case call_processJob env row fr1 of
             (Throws e, fr2) \<Rightarrow> (Throws e, fr2)
           | (Returns result, fr2) \<Rightarrow> after_processJob env row logFileId result fr2))"

text \<open>Lines 299 to 318: the \<^verbatim>\<open>catch\<close> block. Its \<^verbatim>\<open>logFileId\<close> is read from
  \<^verbatim>\<open>row\<close>, the row as it was selected at entry.\<close>

definition alarm_catch :: "alarm_env \<Rightarrow> job_row \<Rightarrow> thrown \<Rightarrow> frame \<Rightarrow> unit outcome \<times> do_state" where
  "alarm_catch env row e fr =
     (case fr of (s, lg) \<Rightarrow>
        (let errorMessage = error_message e;
             lg1 = lg @ [LogMessage ''error'' ''Job failed'' [(''error'', errorMessage)]]
         in (case (if truthy (log_file_id row) then log_file_id row else None) of
               Some logFileId \<Rightarrow>
                 (let s1 = emit (FailKlados logFileId e lg1) s in
                  (case failKlados env of
                     Throws e' \<Rightarrow> (Throws e', s1)
                   | Returns u \<Rightarrow> (Returns (), sql_set_error errorMessage s1)))
             | None \<Rightarrow> (Returns (), sql_set_error errorMessage s))))"

text \<open>Lines 163 to 319. \<open>Throws\<close> as the result is an exception that escapes the
  handler. The row is selected before the \<^verbatim>\<open>try\<close> block, so what \<^verbatim>\<open>.one()\<close> throws
  on an empty table escapes.\<close>

definition alarm :: "alarm_env \<Rightarrow> do_state \<Rightarrow> unit outcome \<times> do_state" where
  "alarm env s =
     (case select_one s of
        Throws e \<Rightarrow> (Throws e, s)
      | Returns r \<Rightarrow>
          (case r of
             None \<Rightarrow> (Returns (), s)
           | Some row \<Rightarrow>
               if status row = st_done \<or> status row = st_error then (Returns (), s)
               else
                 (let s1 = sql_set_status st_processing s in
                  (case alarm_try env row (s1, []) of
                     (Throws e, fr) \<Rightarrow> alarm_catch env row e fr
                   | (Returns u, (s2, lg)) \<Rightarrow> (Returns (), s2)))))"

subsection \<open>fetch and the operations of the actor\<close>

datatype fetch_body = StartBody KladosRequest KladosJobConfig

definition fetch ::
  "start_env \<Rightarrow> string \<Rightarrow> fetch_body \<Rightarrow> do_state \<Rightarrow> response outcome \<times> do_state" where
  "fetch env pathname body s =
     (if pathname = ''/start'' then
        (case body of StartBody req cfg \<Rightarrow> handleStart env req cfg s)
      else if pathname = ''/status'' then (handleStatus s, s)
      else (Returns (TextResponse 404 ''Not found''), s))"

datatype operation =
    OpStart start_env KladosRequest KladosJobConfig
  | OpStatus
  | OpAlarm alarm_env

fun step :: "operation \<Rightarrow> do_state \<Rightarrow> do_state" where
  "step (OpStart env req cfg) s = snd (handleStart env req cfg s)"
| "step OpStatus s = s"
| "step (OpAlarm env) s = snd (alarm env s)"

fun run :: "operation list \<Rightarrow> do_state \<Rightarrow> do_state" where
  "run [] s = s"
| "run (x # xs) s = run xs (step x s)"

subsection \<open>Reading the trace\<close>


fun is_FailKlados :: "event \<Rightarrow> bool" where
  "is_FailKlados (FailKlados f e m) = True"
| "is_FailKlados ev = False"

text \<open>The calls of the workflow handoff and of the log's finalisation.\<close>

fun is_handoff_or_finalize :: "event \<Rightarrow> bool" where
  "is_handoff_or_finalize (GetEntity i) = True"
| "is_handoff_or_finalize (InterpretThen d outs f) = True"
| "is_handoff_or_finalize (UpdateLogWithHandoffs f hs) = True"
| "is_handoff_or_finalize (UpdateLogStatus f st m) = True"
| "is_handoff_or_finalize (FailKlados f e m) = True"
| "is_handoff_or_finalize ev = False"


subsection \<open>Kinds of resumption\<close>

text \<open>The callback signals continue: it returns with a truthy \<^verbatim>\<open>reschedule\<close>.\<close>

definition continues :: "alarm_env \<Rightarrow> bool" where
  "continues env =
     (case processJob env of
        Throws e \<Rightarrow> False
      | Returns result \<Rightarrow> reschedule result = Some True)"

text \<open>The initial log write, when it is made, returns a file id that is not empty.\<close>

definition log_write_ok :: "alarm_env \<Rightarrow> bool" where
  "log_write_ok env =
     (case writeKladosLog env of
        Throws e \<Rightarrow> False
      | Returns fileId \<Rightarrow> fileId \<noteq> [])"

text \<open>The callback returns its final result and every collaborator of the handoff and
  of the finalisation returns normally, the entity store with an entity. The outcome of
  a collaborator that the invocation does not call has no effect, so this describes
  every resumption whose \<^verbatim>\<open>try\<close> block runs to its end.\<close>

definition handoff_calls_return :: "alarm_env \<Rightarrow> bool" where
  "handoff_calls_return env =
     ((case api_get_entity env of
         Throws e \<Rightarrow> False
       | Returns resp \<Rightarrow> resp_error resp = None \<and> resp_data resp \<noteq> None)
      \<and> (case interpretThen env of Throws e \<Rightarrow> False | Returns h \<Rightarrow> True)
      \<and> updateLogWithHandoffs env = Returns ())"


subsection \<open>Example inputs\<close>

definition ex_request :: KladosRequest where
  "ex_request =
     \<lparr>job_id = ''job1'', target_entity = Some ''e1'', target_entities = None,
      target_collection = ''tc'', job_collection = ''jc'', api_base = ''https://api'',
      network = ''test'', rhiza = None\<rparr>"

definition ex_request_other :: KladosRequest where
  "ex_request_other = ex_request\<lparr>target_entity := Some ''e2''\<rparr>"

definition ex_config :: KladosJobConfig where
  "ex_config = \<lparr>agentId = ''agent'', agentVersion = ''1'', authToken = ''tok''\<rparr>"

definition ex_config_other :: KladosJobConfig where
  "ex_config_other = \<lparr>agentId = ''agent'', agentVersion = ''2'', authToken = ''tok2''\<rparr>"

definition ex_start_env :: start_env where
  "ex_start_env = \<lparr>generated_id = ''abc'', start_iso = ''t0'', start_ms = 0\<rparr>"

definition ex_start_env_later :: start_env where
  "ex_start_env_later = \<lparr>generated_id = ''xyz'', start_iso = ''t5'', start_ms = 5000\<rparr>"

definition ex_row :: job_row where
  "ex_row =
     \<lparr>request = ex_request, config = ex_config, log_id = ''log_abc'', log_file_id = None,
      status = st_accepted, created_at = ''t0'', error = None\<rparr>"

text \<open>A job that was started and not yet resumed: row 1 as the \<^verbatim>\<open>INSERT\<close> of
  \<^verbatim>\<open>handleStart\<close> writes it, the alarm 100 ms ahead.\<close>

definition ex_started :: do_state where
  "ex_started =
     \<lparr>job_state = [1 \<mapsto> ex_row], alarm_at = Some 100,
      effects = [SqlInsert ex_row, SetAlarm 100]\<rparr>"

text \<open>A job that was resumed once and asked to continue: its log exists.\<close>

definition ex_resumed :: do_state where
  "ex_resumed =
     \<lparr>job_state = [1 \<mapsto> ex_row\<lparr>log_file_id := Some ''f1'', status := st_processing\<rparr>],
      alarm_at = Some 1200, effects = []\<rparr>"

definition ex_finished :: do_state where
  "ex_finished =
     \<lparr>job_state = [1 \<mapsto> ex_row\<lparr>log_file_id := Some ''f1'', status := st_done\<rparr>],
      alarm_at = Some 1200, effects = []\<rparr>"

text \<open>Every collaborator returns; the callback returns one output.\<close>

definition ex_env_success :: alarm_env where
  "ex_env_success =
     \<lparr>now_ms = 200, now_iso = ''t1'', writeKladosLog = Returns ''f1'',
      processJob = Returns \<lparr>outputs = Some [''o1''], reschedule = None\<rparr>,
      processJob_messages = [],
      api_get_entity = Returns \<lparr>resp_data = Some \<lparr>flow = None\<rparr>, resp_error = None\<rparr>,
      interpretThen =
        Returns \<lparr>handoffRecord = None, action = ''done'', target = [], targetType = []\<rparr>,
      updateLogWithHandoffs = Returns (), updateLogStatus = Returns (),
      failKlados = Returns ()\<rparr>"

text \<open>The callback returns outputs and asks to be rescheduled.\<close>

definition ex_env_continue :: alarm_env where
  "ex_env_continue =
     ex_env_success\<lparr>processJob := Returns \<lparr>outputs = Some [''o1''], reschedule = Some True\<rparr>\<rparr>"

text \<open>The callback throws \<^verbatim>\<open>new Error("X")\<close>.\<close>

definition ex_env_throw :: alarm_env where
  "ex_env_throw = ex_env_success\<lparr>processJob := Throws (ErrorObj ''X'')\<rparr>"

text \<open>The callback throws and the failure finalizer throws too.\<close>

definition ex_env_throw_twice :: alarm_env where
  "ex_env_throw_twice = ex_env_throw\<lparr>failKlados := Throws (ErrorObj ''unreachable'')\<rparr>"

text \<open>The log recorder returns an empty file id.\<close>

definition ex_env_empty_id :: alarm_env where
  "ex_env_empty_id = ex_env_continue\<lparr>writeKladosLog := Returns []\<rparr>"

subsection \<open>Relations between rows\<close>

text \<open>What the try block can do to row 1.\<close>

definition try_row :: "job_row \<Rightarrow> job_row \<Rightarrow> bool" where
  "try_row r r' =
     (request r' = request r \<and> config r' = config r \<and> log_id r' = log_id r
      \<and> created_at r' = created_at r \<and> error r' = error r
      \<and> (status r' = status r \<or> status r' = st_done))"

definition log_row :: "alarm_env \<Rightarrow> job_row \<Rightarrow> job_row \<Rightarrow> job_row \<Rightarrow> bool" where
  "log_row env row r r' =
     (log_file_id r' = log_file_id r
      \<or> (\<not> truthy (log_file_id row)
          \<and> (case writeKladosLog env of Throws e \<Rightarrow> False | Returns f \<Rightarrow> log_file_id r' = Some f)))"

text \<open>The invariant of the \<^verbatim>\<open>error\<close> column.\<close>

definition error_iff_status :: "do_state \<Rightarrow> bool" where
  "error_iff_status s =
     (case job_state s 1 of
        None \<Rightarrow> True
      | Some r \<Rightarrow> (error r \<noteq> None) = (status r = st_error))"

subsection \<open>More example inputs\<close>

text \<open>The log store is down: finalizing the log fails, and so does the failure finalizer.\<close>

definition ex_env_log_store_down :: alarm_env where
  "ex_env_log_store_down =
     ex_env_success\<lparr>updateLogStatus := Throws (ErrorObj ''log store down''),
                    failKlados := Throws (ErrorObj ''log store down'')\<rparr>"

subsection \<open>States of the continue loop\<close>



subsection \<open>Failures inside the try block\<close>

text \<open>The invocation reaches the callback: the initial log exists or its write returns.\<close>

definition callback_reached :: "alarm_env \<Rightarrow> job_row \<Rightarrow> bool" where
  "callback_reached env row =
     (truthy (log_file_id row)
      \<or> (case writeKladosLog env of Throws e \<Rightarrow> False | Returns fileId \<Rightarrow> True))"

text \<open>The callback is reached and returns a result that does not ask to continue.\<close>

definition final_result :: "alarm_env \<Rightarrow> job_row \<Rightarrow> ProcessResult \<Rightarrow> bool" where
  "final_result env row result =
     (callback_reached env row \<and> processJob env = Returns result
      \<and> reschedule result \<noteq> Some True)"

text \<open>The handler returns normally and leaves status \<^verbatim>\<open>error\<close> with message \<open>m\<close>.\<close>

definition marks_error :: "alarm_env \<Rightarrow> do_state \<Rightarrow> string \<Rightarrow> bool" where
  "marks_error env s m =
     (fst (alarm env s) = Returns ()
      \<and> map_option status (job_state (snd (alarm env s)) 1) = Some st_error
      \<and> map_option error (job_state (snd (alarm env s)) 1) = Some (Some m))"

subsection \<open>A workflow job\<close>

definition ex_workflow_request :: KladosRequest where
  "ex_workflow_request =
     ex_request\<lparr>rhiza := Some \<lparr>rhiza_id = ''rz1'', path = Some [''stepA''],
                                parent_logs = None, batch = None, scatter_total = None\<rparr>\<rparr>"

definition ex_workflow_started :: do_state where
  "ex_workflow_started =
     \<lparr>job_state = [1 \<mapsto> ex_row\<lparr>request := ex_workflow_request\<rparr>], alarm_at = Some 100,
      effects = []\<rparr>"

text \<open>The flow has a continuation for \<^verbatim>\<open>stepA\<close> and the flow interpreter throws.\<close>

definition ex_env_interpreter_down :: alarm_env where
  "ex_env_interpreter_down =
     ex_env_success
       \<lparr>api_get_entity :=
          Returns \<lparr>resp_data =
                     Some \<lparr>flow = Some [(''stepA'',
                                          \<lparr>then_directive = Some (ThenSpec ''pass stepB'')\<rparr>)]\<rparr>,
                   resp_error = None\<rparr>,
        interpretThen := Throws (ErrorObj ''interpreter down'')\<rparr>"

section \<open>Properties\<close>

subsection \<open>Storage primitives\<close>

lemma emit_simps:
  "job_state (emit ev s) = job_state s"
  "alarm_at (emit ev s) = alarm_at s"
  "effects (emit ev s) = effects s @ [ev]"
  by (simp_all add: emit_def)

lemma sql_update_simps:
  "job_state (sql_update f s) 1 = map_option f (job_state s 1)"
  "alarm_at (sql_update f s) = alarm_at s"
  "effects (sql_update f s) = effects s"
  by (simp_all add: sql_update_def split: option.splits)

lemma sql_set_status_simps:
  "job_state (sql_set_status st s) 1 = map_option (\<lambda>r. r\<lparr>status := st\<rparr>) (job_state s 1)"
  "alarm_at (sql_set_status st s) = alarm_at s"
  "effects (sql_set_status st s) = effects s @ [SqlSetStatus st]"
  by (simp_all add: sql_set_status_def sql_update_simps emit_simps)

lemma sql_set_log_file_id_simps:
  "job_state (sql_set_log_file_id f s) 1 =
     map_option (\<lambda>r. r\<lparr>log_file_id := Some f\<rparr>) (job_state s 1)"
  "alarm_at (sql_set_log_file_id f s) = alarm_at s"
  "effects (sql_set_log_file_id f s) = effects s @ [SqlSetLogFileId f]"
  by (simp_all add: sql_set_log_file_id_def sql_update_simps emit_simps)

lemma sql_set_error_simps:
  "job_state (sql_set_error m s) 1 =
     map_option (\<lambda>r. r\<lparr>status := st_error, error := Some m\<rparr>) (job_state s 1)"
  "alarm_at (sql_set_error m s) = alarm_at s"
  "effects (sql_set_error m s) = effects s @ [SqlSetError m]"
  by (simp_all add: sql_set_error_def sql_update_simps emit_simps)

lemma setAlarm_simps:
  "job_state (setAlarm t s) = job_state s"
  "alarm_at (setAlarm t s) = Some t"
  "effects (setAlarm t s) = effects s @ [SetAlarm t]"
  by (simp_all add: setAlarm_def emit_def)

lemma sql_insert_simps:
  "job_state (sql_insert r s) = (job_state s)(1 \<mapsto> r)"
  "alarm_at (sql_insert r s) = alarm_at s"
  "effects (sql_insert r s) = effects s @ [SqlInsert r]"
  by (simp_all add: sql_insert_def emit_def)

lemmas storage_simps =
  emit_simps sql_set_status_simps sql_set_log_file_id_simps sql_set_error_simps
  setAlarm_simps sql_insert_simps

subsection \<open>The example states\<close>

lemma ex_started_row: "job_state ex_started 1 = Some ex_row"
  by (simp add: ex_started_def)

lemma ex_resumed_row:
  "job_state ex_resumed 1 = Some (ex_row\<lparr>log_file_id := Some ''f1'', status := st_processing\<rparr>)"
  by (simp add: ex_resumed_def)

lemma ex_finished_row:
  "job_state ex_finished 1 = Some (ex_row\<lparr>log_file_id := Some ''f1'', status := st_done\<rparr>)"
  by (simp add: ex_finished_def)

subsection \<open>Start\<close>

lemma handleStart_existing:
  "job_state s 1 = Some row \<Longrightarrow>
   handleStart env req cfg s = (Returns (accept_response req), s)"
  by (simp add: handleStart_def select_one_def)

lemma handleStart_no_row:
  "job_state s 1 = None \<Longrightarrow> handleStart env req cfg s = (Throws no_rows_error, s)"
  by (simp add: handleStart_def select_one_def)

text \<open>
  Claim C2. The idempotency check of \<^verbatim>\<open>handleStart\<close> selects row 1 with \<^verbatim>\<open>.one()\<close>,
  which throws when the table is empty. So the first start call on a fresh actor throws
  before the \<^verbatim>\<open>INSERT\<close>, the alarm and the response: no row is stored and no
  acceptance is returned. Once row 1 exists, a start call with another payload does what
  the claim says of the second call: it answers \<^verbatim>\<open>{accepted: true, job_id}\<close> and leaves
  the row, the alarm and the trace as they were.
\<close>

theorem handleStart_throws_on_fresh_actor:
  "handleStart ex_start_env ex_request ex_config init_state = (Throws no_rows_error, init_state)
   \<and> job_state init_state = Map.empty
   \<and> handleStart ex_start_env_later ex_request_other ex_config_other ex_started =
       (Returns (JsonResponse 200 [(''accepted'', JBool True), (''job_id'', JString ''job1'')]),
        ex_started)
   \<and> map_option request (job_state ex_started 1) = Some ex_request"
  by (simp add: handleStart_def select_one_def init_state_def ex_started_def ex_row_def
      accept_response_def ex_request_other_def ex_request_def)

subsection \<open>Status\<close>

text \<open>
  Claim C9. \<^verbatim>\<open>handleStatus\<close> selects row 1 with \<^verbatim>\<open>.one()\<close>, which throws when the
  table is empty, so the test for a missing row and its 404 \<^verbatim>\<open>{status: 'not_found'}\<close>
  answer are never reached: a status query on an actor without a row throws. When the
  row exists the answer is HTTP 200 with the persisted \<^verbatim>\<open>status\<close> and \<^verbatim>\<open>error\<close>
  (\<^verbatim>\<open>null\<close> when there is none).
\<close>

theorem handleStatus_throws_without_row:
  "handleStatus init_state = Throws no_rows_error
   \<and> fetch ex_start_env ''/status'' (StartBody ex_request ex_config) init_state =
       (Throws no_rows_error, init_state)
   \<and> handleStatus ex_started =
       Returns (JsonResponse 200 [(''status'', JString ''accepted''), (''error'', JNull)])
   \<and> handleStatus (snd (alarm ex_env_throw ex_started)) =
       Returns (JsonResponse 200 [(''status'', JString ''error''), (''error'', JString ''X'')])"
  by (simp add: handleStatus_def fetch_def select_one_def init_state_def alarm_def alarm_try_def
      alarm_catch_def write_initial_log_def call_processJob_def truthy_def make_log_entry_def
      sql_set_status_def sql_set_log_file_id_def sql_set_error_def sql_update_def emit_def
      Let_def ex_started_def ex_row_def ex_request_def ex_config_def ex_env_success_def
      ex_env_throw_def)

subsection \<open>Terminal states\<close>

lemma alarm_terminal:
  "job_state s 1 = Some row \<Longrightarrow> status row = st_done \<or> status row = st_error \<Longrightarrow>
   alarm env s = (Returns (), s)"
  by (auto simp: alarm_def select_one_def)

lemma step_terminal:
  "job_state s 1 = Some row \<Longrightarrow> status row = st_done \<or> status row = st_error \<Longrightarrow>
   step x s = s"
  by (cases x) (simp_all add: handleStart_existing alarm_terminal)

text \<open>
  Claim C3. In a state whose row has status \<^verbatim>\<open>done\<close> or \<^verbatim>\<open>error\<close>, the alarm handler
  returns normally and leaves the whole state as it was: the row, the alarm slot and the
  trace (so no status update, no callback, no log write, no alarm). The same holds for
  any sequence of start, status and alarm operations, of any length and with any
  inputs.
\<close>

theorem terminal_states_absorbing:
  assumes "job_state s 1 = Some row" and "status row = st_done \<or> status row = st_error"
  shows "alarm env s = (Returns (), s) \<and> run ops s = s"
proof
  show "alarm env s = (Returns (), s)" using assms by (rule alarm_terminal)
  show "run ops s = s"
    by (induction ops) (simp_all add: step_terminal [OF assms])
qed

theorem terminal_states_absorbing_witness:
  "job_state ex_finished 1 = Some (ex_row\<lparr>log_file_id := Some ''f1'', status := st_done\<rparr>)
   \<and> alarm ex_env_throw ex_finished = (Returns (), ex_finished)
   \<and> run [OpAlarm ex_env_success, OpStart ex_start_env_later ex_request_other ex_config_other,
           OpAlarm ex_env_continue, OpStatus, OpAlarm ex_env_throw] ex_finished = ex_finished"
proof -
  have h: "status (ex_row\<lparr>log_file_id := Some ''f1'', status := st_done\<rparr>) = st_done
           \<or> status (ex_row\<lparr>log_file_id := Some ''f1'', status := st_done\<rparr>) = st_error"
    by simp
  show ?thesis
    using terminal_states_absorbing [OF ex_finished_row h] ex_finished_row by simp
qed

subsection \<open>The phases of the alarm handler\<close>

lemma run_interpretThen_frame:
  "job_state (fst (snd (run_interpretThen env d outs f (s, lg)))) = job_state s"
  "alarm_at (fst (snd (run_interpretThen env d outs f (s, lg)))) = alarm_at s"
  by (auto simp: run_interpretThen_def Let_def emit_simps split: outcome.splits option.splits)


lemma handoff_frame:
  "job_state (fst (snd (handoff env row f res (s, lg)))) = job_state s"
  "alarm_at (fst (snd (handoff env row f res (s, lg)))) = alarm_at s"
  by (auto simp: handoff_def Let_def emit_simps run_interpretThen_frame
      split: outcome.splits option.splits)




text \<open>The row after the initial log write.\<close>

lemma write_initial_log_truthy:
  "truthy (log_file_id row) \<Longrightarrow>
   write_initial_log env row (s, lg) = (Returns (the (log_file_id row)), (s, lg))"
  by (auto simp: write_initial_log_def truthy_def split: option.splits)

lemma write_initial_log_returns:
  "\<not> truthy (log_file_id row) \<Longrightarrow> writeKladosLog env = Returns f \<Longrightarrow>
   write_initial_log env row (s, lg) =
     (Returns f, (sql_set_log_file_id f
        (emit (WriteKladosLog (job_collection (request row)) (make_log_entry env row) lg) s), lg))"
  by (simp add: write_initial_log_def Let_def)

lemma write_initial_log_throws:
  "\<not> truthy (log_file_id row) \<Longrightarrow> writeKladosLog env = Throws e \<Longrightarrow>
   write_initial_log env row (s, lg) =
     (Throws e, (emit (WriteKladosLog (job_collection (request row)) (make_log_entry env row) lg) s, lg))"
  by (simp add: write_initial_log_def Let_def)

lemma finalize_log_row:
  "job_state s 1 = Some r \<Longrightarrow>
   \<exists>r'. job_state (fst (snd (finalize_log env f (s, lg)))) 1 = Some r' \<and> try_row r r' \<and> log_file_id r' = log_file_id r"
  by (auto simp: finalize_log_def Let_def storage_simps try_row_def split: outcome.splits)

lemma after_processJob_row:
  "job_state s 1 = Some r \<Longrightarrow>
   \<exists>r'. job_state (fst (snd (after_processJob env row f res (s, lg)))) 1 = Some r' \<and> try_row r r' \<and> log_file_id r' = log_file_id r"
proof (cases "reschedule res = Some True")
  case True
  assume "job_state s 1 = Some r"
  with True show ?thesis by (simp add: after_processJob_def storage_simps try_row_def)
next
  case False
  assume r: "job_state s 1 = Some r"
  obtain out s1 lg1 where h: "handoff env row f res (s, lg) = (out, (s1, lg1))"
    by (metis prod.exhaust)
  have "job_state s1 = job_state s" using handoff_frame(1) [of env row f res s lg] h by simp
  with r have r1: "job_state s1 1 = Some r" by simp
  show ?thesis
  proof (cases out)
    case (Throws e)
    with False h r1 show ?thesis by (simp add: after_processJob_def try_row_def)
  next
    case (Returns u)
    with False h finalize_log_row [OF r1, of env f lg1] show ?thesis
      by (simp add: after_processJob_def)
  qed
qed


lemma call_processJob_unfold:
  "call_processJob env row (s, lg) =
     (processJob env, (emit (ProcessJob (request row)) s, lg @ processJob_messages env))"
  by (simp add: call_processJob_def)

lemma alarm_try_truthy:
  "truthy (log_file_id row) \<Longrightarrow>
   alarm_try env row (s, lg) =
     (case processJob env of
        Throws e \<Rightarrow> (Throws e, (emit (ProcessJob (request row)) s, lg @ processJob_messages env))
      | Returns result \<Rightarrow>
          after_processJob env row (the (log_file_id row)) result
            (emit (ProcessJob (request row)) s, lg @ processJob_messages env))"
  by (simp add: alarm_try_def write_initial_log_truthy call_processJob_unfold split: outcome.splits)

lemma alarm_try_log_throws:
  "\<not> truthy (log_file_id row) \<Longrightarrow> writeKladosLog env = Throws e \<Longrightarrow>
   alarm_try env row (s, lg) =
     (Throws e, (emit (WriteKladosLog (job_collection (request row)) (make_log_entry env row) lg) s, lg))"
  by (simp add: alarm_try_def write_initial_log_throws)

lemma alarm_try_log_returns:
  "\<not> truthy (log_file_id row) \<Longrightarrow> writeKladosLog env = Returns f \<Longrightarrow>
   alarm_try env row (s, lg) =
     (case processJob env of
        Throws e \<Rightarrow>
          (Throws e,
           (emit (ProcessJob (request row))
              (sql_set_log_file_id f
                 (emit (WriteKladosLog (job_collection (request row)) (make_log_entry env row) lg) s)),
            lg @ processJob_messages env))
      | Returns result \<Rightarrow>
          after_processJob env row f result
            (emit (ProcessJob (request row))
               (sql_set_log_file_id f
                  (emit (WriteKladosLog (job_collection (request row)) (make_log_entry env row) lg) s)),
             lg @ processJob_messages env))"
  by (simp add: alarm_try_def write_initial_log_returns call_processJob_unfold split: outcome.splits)

lemma alarm_try_row:
  assumes r: "job_state s 1 = Some r"
  shows "\<exists>r'. job_state (fst (snd (alarm_try env row (s, lg)))) 1 = Some r'
              \<and> try_row r r' \<and> log_row env row r r'"
proof (cases "truthy (log_file_id row)")
  case True
  show ?thesis
  proof (cases "processJob env")
    case (Throws e)
    with True r show ?thesis
      by (simp add: alarm_try_truthy storage_simps try_row_def log_row_def)
  next
    case (Returns res)
    have "job_state (emit (ProcessJob (request row)) s) 1 = Some r"
      using r by (simp add: storage_simps)
    from after_processJob_row [OF this, of env row "the (log_file_id row)" res
        "lg @ processJob_messages env"] True Returns
    show ?thesis by (auto simp: alarm_try_truthy log_row_def)
  qed
next
  case False
  show ?thesis
  proof (cases "writeKladosLog env")
    case (Throws e)
    with False r show ?thesis
      by (simp add: alarm_try_log_throws storage_simps try_row_def log_row_def)
  next
    case wr: (Returns f)
    let ?s1 = "emit (ProcessJob (request row))
              (sql_set_log_file_id f
                 (emit (WriteKladosLog (job_collection (request row)) (make_log_entry env row) lg) s))"
    have r1: "job_state ?s1 1 = Some (r\<lparr>log_file_id := Some f\<rparr>)"
      using r by (simp add: storage_simps)
    show ?thesis
    proof (cases "processJob env")
      case (Throws e)
      with False wr r1 show ?thesis
        by (simp add: alarm_try_log_returns try_row_def log_row_def)
    next
      case (Returns res)
      from after_processJob_row [OF r1, of env row f res "lg @ processJob_messages env"]
        False wr Returns
      show ?thesis by (auto simp: alarm_try_log_returns log_row_def try_row_def)
    qed
  qed
qed

lemma alarm_nonterminal:
  "job_state s 1 = Some row \<Longrightarrow> status row \<noteq> st_done \<Longrightarrow> status row \<noteq> st_error \<Longrightarrow>
   alarm env s =
     (case alarm_try env row (sql_set_status st_processing s, []) of
        (Throws e, fr) \<Rightarrow> alarm_catch env row e fr
      | (Returns u, (s2, lg)) \<Rightarrow> (Returns (), s2))"
  by (simp add: alarm_def select_one_def Let_def)

lemma alarm_catch_plain:
  "\<not> truthy (log_file_id row) \<Longrightarrow>
   alarm_catch env row e (s, lg) = (Returns (), sql_set_error (error_message e) s)"
  by (simp add: alarm_catch_def Let_def)

lemma alarm_catch_fail_returns:
  "truthy (log_file_id row) \<Longrightarrow> failKlados env = Returns () \<Longrightarrow>
   alarm_catch env row e (s, lg) =
     (Returns (),
      sql_set_error (error_message e)
        (emit (FailKlados (the (log_file_id row)) e
                 (lg @ [LogMessage ''error'' ''Job failed'' [(''error'', error_message e)]])) s))"
  by (auto simp: alarm_catch_def Let_def truthy_def split: option.splits)

lemma alarm_catch_fail_throws:
  "truthy (log_file_id row) \<Longrightarrow> failKlados env = Throws e' \<Longrightarrow>
   alarm_catch env row e (s, lg) =
     (Throws e',
      emit (FailKlados (the (log_file_id row)) e
              (lg @ [LogMessage ''error'' ''Job failed'' [(''error'', error_message e)]])) s)"
  by (auto simp: alarm_catch_def Let_def truthy_def split: option.splits)

lemma alarm_catch_row:
  assumes "job_state s 1 = Some r"
  shows "job_state (snd (alarm_catch env row e (s, lg))) 1 = Some r
         \<or> job_state (snd (alarm_catch env row e (s, lg))) 1 =
             Some (r\<lparr>status := st_error, error := Some (error_message e)\<rparr>)"
proof (cases "truthy (log_file_id row)")
  case False
  with assms show ?thesis by (simp add: alarm_catch_plain storage_simps)
next
  case True
  show ?thesis
  proof (cases "failKlados env")
    case (Throws e')
    with True assms show ?thesis by (simp add: alarm_catch_fail_throws storage_simps)
  next
    case (Returns u)
    with True assms show ?thesis by (simp add: alarm_catch_fail_returns storage_simps)
  qed
qed

text \<open>What one alarm can do to row 1.\<close>

lemma alarm_row:
  assumes row: "job_state s 1 = Some row"
  shows "\<exists>r'. job_state (snd (alarm env s)) 1 = Some r'
          \<and> request r' = request row \<and> config r' = config row \<and> log_id r' = log_id row
          \<and> created_at r' = created_at row
          \<and> (r' = row
              \<or> (error r' = error row \<and> (status r' = st_processing \<or> status r' = st_done))
              \<or> (status r' = st_error \<and> error r' \<noteq> None))
          \<and> log_row env row row r'"
proof (cases "status row = st_done \<or> status row = st_error")
  case True
  with row show ?thesis by (simp add: alarm_terminal [OF row True] log_row_def)
next
  case False
  let ?s1 = "sql_set_status st_processing s"
  have r1: "job_state ?s1 1 = Some (row\<lparr>status := st_processing\<rparr>)"
    using row by (simp add: storage_simps)
  obtain out s2 lg2 where t: "alarm_try env row (?s1, []) = (out, (s2, lg2))"
    by (metis prod.exhaust)
  from alarm_try_row [OF r1, of env row "[]"] t
  obtain r2 where r2: "job_state s2 1 = Some r2"
    and fr: "try_row (row\<lparr>status := st_processing\<rparr>) r2"
    and lr: "log_row env row (row\<lparr>status := st_processing\<rparr>) r2"
    by auto
  show ?thesis
  proof (cases out)
    case (Returns u)
    with False row t have "snd (alarm env s) = s2" by (simp add: alarm_nonterminal)
    with r2 fr lr show ?thesis by (auto simp: try_row_def log_row_def)
  next
    case (Throws e)
    with False row t have a: "snd (alarm env s) = snd (alarm_catch env row e (s2, lg2))"
      by (simp add: alarm_nonterminal)
    from alarm_catch_row [OF r2, of env row e lg2] a r2 fr lr show ?thesis
      by (auto simp: try_row_def log_row_def split: outcome.splits)
  qed
qed

lemmas alarm_defs =
  alarm_def select_one_def alarm_try_def alarm_catch_def write_initial_log_def
  call_processJob_def current_directive_def
  after_processJob_def handoff_def run_interpretThen_def finalize_log_def truthy_def
  make_log_entry_def current_step_name_def
  sql_set_status_def sql_set_log_file_id_def sql_set_error_def sql_update_def setAlarm_def
  emit_def Let_def

lemmas ex_defs =
  ex_started_def ex_resumed_def ex_finished_def ex_row_def ex_request_def ex_config_def
  ex_env_success_def ex_env_continue_def ex_env_throw_def ex_env_throw_twice_def
  ex_env_empty_id_def ex_env_log_store_down_def ex_workflow_request_def
  ex_workflow_started_def ex_env_interpreter_down_def

lemma finalize_log_returns:
  "finalize_log env f (s, lg) = (Returns u, (s', lg')) \<Longrightarrow> job_state s 1 = Some r \<Longrightarrow>
   job_state s' 1 = Some (r\<lparr>status := st_done\<rparr>) \<and> alarm_at s' = alarm_at s"
  by (auto simp: finalize_log_def Let_def storage_simps split: outcome.splits)

lemma after_processJob_returns:
  assumes a: "after_processJob env row f res (s, lg) = (Returns u, (s', lg'))"
      and r: "job_state s 1 = Some r"
  shows "\<exists>r'. job_state s' 1 = Some r'
           \<and> (status r' = st_done
               \<or> (status r' = status r \<and> alarm_at s' = Some (now_ms env + 1000)))"
proof (cases "reschedule res = Some True")
  case True
  with a r show ?thesis by (auto simp: after_processJob_def storage_simps)
next
  case False
  obtain out s1 lg1 where h: "handoff env row f res (s, lg) = (out, (s1, lg1))"
    by (metis prod.exhaust)
  have "job_state s1 = job_state s" using handoff_frame(1) [of env row f res s lg] h by simp
  with r have r1: "job_state s1 1 = Some r" by simp
  from a False h have "finalize_log env f (s1, lg1) = (Returns u, (s', lg'))"
    by (cases out) (simp_all add: after_processJob_def)
  from finalize_log_returns [OF this r1] show ?thesis by simp
qed

lemma alarm_try_returns:
  assumes a: "alarm_try env row (s, lg) = (Returns u, (s', lg'))"
      and r: "job_state s 1 = Some r"
  shows "\<exists>r'. job_state s' 1 = Some r'
           \<and> (status r' = st_done
               \<or> (status r' = status r \<and> alarm_at s' = Some (now_ms env + 1000)))"
proof (cases "truthy (log_file_id row)")
  case True
  from a True obtain res where
    "after_processJob env row (the (log_file_id row)) res
       (emit (ProcessJob (request row)) s, lg @ processJob_messages env) = (Returns u, (s', lg'))"
    by (cases "processJob env") (simp_all add: alarm_try_truthy)
  from after_processJob_returns [OF this, of r] r show ?thesis by (simp add: storage_simps)
next
  case False
  from a False obtain f where wr: "writeKladosLog env = Returns f"
    by (cases "writeKladosLog env") (simp_all add: alarm_try_log_throws)
  let ?s1 = "emit (ProcessJob (request row))
              (sql_set_log_file_id f
                 (emit (WriteKladosLog (job_collection (request row)) (make_log_entry env row) lg) s))"
  have r1: "job_state ?s1 1 = Some (r\<lparr>log_file_id := Some f\<rparr>)"
    using r by (simp add: storage_simps)
  from a False wr obtain res where
    "after_processJob env row f res (?s1, lg @ processJob_messages env) = (Returns u, (s', lg'))"
    by (cases "processJob env") (simp_all add: alarm_try_log_returns)
  from after_processJob_returns [OF this r1] show ?thesis by simp
qed

lemma alarm_try_row_exists:
  "job_state s 1 = Some r \<Longrightarrow> alarm_try env row (s, lg) = (out, (s', lg')) \<Longrightarrow>
   \<exists>r'. job_state s' 1 = Some r'"
  using alarm_try_row [of s r env row lg] by auto

text \<open>The \<^verbatim>\<open>try\<close> block throws and the failure finalizer does not.\<close>

lemma alarm_try_throws_settles:
  assumes row: "job_state s 1 = Some row"
      and nt: "status row \<noteq> st_done" "status row \<noteq> st_error"
      and fk: "failKlados env = Returns () \<or> \<not> truthy (log_file_id row)"
      and t: "alarm_try env row (sql_set_status st_processing s, []) = (Throws e, (s2, lg2))"
  shows "fst (alarm env s) = Returns ()
       \<and> (\<exists>r'. job_state (snd (alarm env s)) 1 = Some r'
             \<and> status r' = st_error \<and> error r' = Some (error_message e))"
proof -
  have r1: "job_state (sql_set_status st_processing s) 1 = Some (row\<lparr>status := st_processing\<rparr>)"
    using row by (simp add: storage_simps)
  from row nt t have a: "alarm env s = alarm_catch env row e (s2, lg2)"
    by (simp add: alarm_nonterminal)
  from alarm_try_row_exists [OF r1 t] obtain r2 where r2: "job_state s2 1 = Some r2" by auto
  have "alarm_catch env row e (s2, lg2) = (Returns (), sql_set_error (error_message e) s2)
        \<or> alarm_catch env row e (s2, lg2) =
             (Returns (), sql_set_error (error_message e)
                (emit (FailKlados (the (log_file_id row)) e
                   (lg2 @ [LogMessage ''error'' ''Job failed'' [(''error'', error_message e)]])) s2))"
    using fk alarm_catch_plain [of row env e s2 lg2] alarm_catch_fail_returns [of row env e s2 lg2]
    by blast
  with a r2 show ?thesis by (auto simp: storage_simps)
qed

subsection \<open>Exceptions and the persisted status\<close>

text \<open>
  Claim C4, as stated, fails: the \<^verbatim>\<open>catch\<close> block awaits \<^verbatim>\<open>failKlados\<close> before it
  writes the status, and nothing guards that call. On a job whose log exists, with the
  log store down, finalizing the log throws, the failure finalizer throws too, the
  exception escapes the handler and the row stays in \<^verbatim>\<open>processing\<close>.
\<close>

theorem alarm_escape_counterexample:
  "fst (alarm ex_env_log_store_down ex_resumed) = Throws (ErrorObj ''log store down'')
   \<and> map_option status (job_state (snd (alarm ex_env_log_store_down ex_resumed)) 1) =
       Some st_processing"
  by (simp add: alarm_defs ex_defs)

text \<open>Which collaborator failures make the \<^verbatim>\<open>try\<close> block throw.\<close>

lemma handoff_fetch_throws:
  "rhiza (request row) = Some rz \<Longrightarrow> outputs res = Some outs \<Longrightarrow>
   api_get_entity env = Throws e \<Longrightarrow> fst (handoff env row f res fr) = Throws e"
  by (simp add: handoff_def Let_def split: prod.splits)

lemma handoff_fetch_fails:
  "rhiza (request row) = Some rz \<Longrightarrow> outputs res = Some outs \<Longrightarrow>
   api_get_entity env = Returns resp \<Longrightarrow> resp_error resp \<noteq> None \<or> resp_data resp = None \<Longrightarrow>
   fst (handoff env row f res fr) = Throws (ErrorObj (''Failed to fetch rhiza: '' @ rhiza_id rz))"
  by (auto simp: handoff_def Let_def split: prod.splits option.splits)

lemma handoff_interpreter_throws:
  "rhiza (request row) = Some rz \<Longrightarrow> outputs res = Some outs \<Longrightarrow>
   api_get_entity env = Returns resp \<Longrightarrow> resp_error resp = None \<Longrightarrow>
   resp_data resp = Some ent \<Longrightarrow> current_directive rz ent = Some d \<Longrightarrow>
   interpretThen env = Throws e \<Longrightarrow> fst (handoff env row f res fr) = Throws e"
  by (simp add: handoff_def run_interpretThen_def Let_def split: prod.splits)

lemma handoff_append_throws:
  "rhiza (request row) = Some rz \<Longrightarrow> outputs res = Some outs \<Longrightarrow>
   api_get_entity env = Returns resp \<Longrightarrow> resp_error resp = None \<Longrightarrow>
   resp_data resp = Some ent \<Longrightarrow> current_directive rz ent = Some d \<Longrightarrow>
   interpretThen env = Returns hr \<Longrightarrow> handoffRecord hr = Some h \<Longrightarrow>
   updateLogWithHandoffs env = Throws e \<Longrightarrow> fst (handoff env row f res fr) = Throws e"
  by (simp add: handoff_def run_interpretThen_def Let_def split: prod.splits)

lemma handoff_completes:
  "rhiza (request row) = None \<or> outputs res = None \<or> handoff_calls_return env \<Longrightarrow>
   fst (handoff env row f res fr) = Returns ()"
  by (auto simp: handoff_def run_interpretThen_def handoff_calls_return_def Let_def
      split: prod.splits option.splits outcome.splits)

lemma after_processJob_handoff_throws:
  "reschedule res \<noteq> Some True \<Longrightarrow> fst (handoff env row f res fr) = Throws e \<Longrightarrow>
   fst (after_processJob env row f res fr) = Throws e"
  by (cases "handoff env row f res fr") (auto simp: after_processJob_def split: prod.splits)

lemma after_processJob_finalize_throws:
  "reschedule res \<noteq> Some True \<Longrightarrow> fst (handoff env row f res fr) = Returns () \<Longrightarrow>
   updateLogStatus env = Throws e \<Longrightarrow> fst (after_processJob env row f res fr) = Throws e"
  by (cases "handoff env row f res fr")
     (auto simp: after_processJob_def finalize_log_def Let_def split: prod.splits)

lemma alarm_try_log_write_throws:
  "\<not> truthy (log_file_id row) \<Longrightarrow> writeKladosLog env = Throws e \<Longrightarrow>
   fst (alarm_try env row fr) = Throws e"
  by (cases fr) (simp add: alarm_try_log_throws)

lemma alarm_try_callback_throws:
  "callback_reached env row \<Longrightarrow> processJob env = Throws e \<Longrightarrow>
   fst (alarm_try env row fr) = Throws e"
  by (cases fr; cases "writeKladosLog env"; cases "truthy (log_file_id row)")
     (simp_all add: callback_reached_def alarm_try_truthy alarm_try_log_returns)

lemma alarm_try_final_result:
  assumes "final_result env row res"
  shows "\<exists>f fr'. alarm_try env row fr = after_processJob env row f res fr'"
proof (cases "truthy (log_file_id row)")
  case True
  with assms show ?thesis
    by (cases fr) (auto simp: final_result_def alarm_try_truthy)
next
  case False
  with assms obtain fid where "writeKladosLog env = Returns fid"
    by (cases "writeKladosLog env") (simp_all add: final_result_def callback_reached_def)
  with False assms show ?thesis
    by (cases fr) (auto simp: final_result_def alarm_try_log_returns)
qed

lemma alarm_try_handoff_throws:
  assumes "final_result env row res" and "\<And>f fr'. fst (handoff env row f res fr') = Throws e"
  shows "fst (alarm_try env row fr) = Throws e"
proof -
  from alarm_try_final_result [OF assms(1), of fr] obtain f fr' where
    "alarm_try env row fr = after_processJob env row f res fr'" by auto
  moreover from assms have "fst (after_processJob env row f res fr') = Throws e"
    by (simp add: final_result_def after_processJob_handoff_throws)
  ultimately show ?thesis by simp
qed

lemma alarm_try_finalize_throws:
  assumes "final_result env row res"
      and "rhiza (request row) = None \<or> outputs res = None \<or> handoff_calls_return env"
      and "updateLogStatus env = Throws e"
  shows "fst (alarm_try env row fr) = Throws e"
proof -
  from alarm_try_final_result [OF assms(1), of fr] obtain f fr' where
    "alarm_try env row fr = after_processJob env row f res fr'" by auto
  moreover from assms have "fst (after_processJob env row f res fr') = Throws e"
    by (simp add: final_result_def after_processJob_finalize_throws handoff_completes)
  ultimately show ?thesis by simp
qed

lemma marks_error_from_try:
  assumes row: "job_state s 1 = Some row"
      and nt: "status row \<noteq> st_done" "status row \<noteq> st_error"
      and fk: "failKlados env = Returns () \<or> \<not> truthy (log_file_id row)"
      and t: "fst (alarm_try env row (sql_set_status st_processing s, [])) = Throws e"
  shows "marks_error env s (error_message e)"
proof -
  from t obtain s2 lg2 where
    "alarm_try env row (sql_set_status st_processing s, []) = (Throws e, (s2, lg2))"
    by (metis prod.collapse)
  from alarm_try_throws_settles [OF row nt fk this] show ?thesis
    by (auto simp: marks_error_def)
qed

text \<open>
  Claim C4, amended. Take any row, and let the failure finalizer \<^verbatim>\<open>failKlados\<close>
  return normally, or not be called because the row read at entry has no
  \<^verbatim>\<open>log_file_id\<close>. Then the alarm handler returns normally, whatever the other
  collaborators do, and leaves a row whose status is \<^verbatim>\<open>done\<close>, \<^verbatim>\<open>error\<close>, or
  \<^verbatim>\<open>processing\<close> with the alarm set one second ahead. On a row that is not terminal,
  each failure inside the \<^verbatim>\<open>try\<close> block marks the job \<^verbatim>\<open>error\<close> with the failure's
  message: the initial log write throwing; the callback throwing; and, once the
  callback has returned its final result, the flow fetch throwing or coming back with an
  error or without an entity, the flow interpreter throwing, the handoff append
  throwing, and the log finalisation throwing after a handoff that was skipped or went
  through.
\<close>

theorem alarm_escapes_only_from_failKlados:
  assumes row: "job_state s 1 = Some row"
      and fk: "failKlados env = Returns () \<or> \<not> truthy (log_file_id row)"
  shows "fst (alarm env s) = Returns ()
       \<and> (\<exists>r'. job_state (snd (alarm env s)) 1 = Some r'
             \<and> (status r' = st_done \<or> status r' = st_error
                 \<or> (status r' = st_processing
                     \<and> alarm_at (snd (alarm env s)) = Some (now_ms env + 1000))))
       \<and> (status row \<noteq> st_done \<longrightarrow> status row \<noteq> st_error \<longrightarrow>
            (\<not> truthy (log_file_id row) \<longrightarrow> writeKladosLog env = Throws e \<longrightarrow>
               marks_error env s (error_message e))
          \<and> (callback_reached env row \<longrightarrow> processJob env = Throws e \<longrightarrow>
               marks_error env s (error_message e))
          \<and> (final_result env row result \<longrightarrow>
               rhiza (request row) = Some rz \<longrightarrow> outputs result = Some outs \<longrightarrow>
               api_get_entity env = Throws e \<longrightarrow>
               marks_error env s (error_message e))
          \<and> (final_result env row result \<longrightarrow>
               rhiza (request row) = Some rz \<longrightarrow> outputs result = Some outs \<longrightarrow>
               api_get_entity env = Returns resp \<longrightarrow>
               resp_error resp \<noteq> None \<or> resp_data resp = None \<longrightarrow>
               marks_error env s (''Failed to fetch rhiza: '' @ rhiza_id rz))
          \<and> (final_result env row result \<longrightarrow>
               rhiza (request row) = Some rz \<longrightarrow> outputs result = Some outs \<longrightarrow>
               api_get_entity env = Returns resp \<longrightarrow>
               resp_error resp = None \<longrightarrow> resp_data resp = Some ent \<longrightarrow>
               current_directive rz ent = Some d \<longrightarrow>
               interpretThen env = Throws e \<longrightarrow>
               marks_error env s (error_message e))
          \<and> (final_result env row result \<longrightarrow>
               rhiza (request row) = Some rz \<longrightarrow> outputs result = Some outs \<longrightarrow>
               api_get_entity env = Returns resp \<longrightarrow>
               resp_error resp = None \<longrightarrow> resp_data resp = Some ent \<longrightarrow>
               current_directive rz ent = Some d \<longrightarrow>
               interpretThen env = Returns hr \<longrightarrow> handoffRecord hr = Some h \<longrightarrow>
               updateLogWithHandoffs env = Throws e \<longrightarrow>
               marks_error env s (error_message e))
          \<and> (final_result env row result \<longrightarrow>
               rhiza (request row) = None \<or> outputs result = None
                 \<or> handoff_calls_return env \<longrightarrow>
               updateLogStatus env = Throws e \<longrightarrow>
               marks_error env s (error_message e)))"
proof -
  let ?fr = "(sql_set_status st_processing s, [])"
  have settle: "fst (alarm env s) = Returns ()
       \<and> (\<exists>r'. job_state (snd (alarm env s)) 1 = Some r'
             \<and> (status r' = st_done \<or> status r' = st_error
                 \<or> (status r' = st_processing
                     \<and> alarm_at (snd (alarm env s)) = Some (now_ms env + 1000))))"
  proof (cases "status row = st_done \<or> status row = st_error")
    case True
    with row show ?thesis by (auto simp: alarm_terminal [OF row True])
  next
    case False
    then have nt: "status row \<noteq> st_done" "status row \<noteq> st_error" by simp_all
    have r1: "job_state (sql_set_status st_processing s) 1 =
                Some (row\<lparr>status := st_processing\<rparr>)"
      using row by (simp add: storage_simps)
    obtain out s2 lg2 where t: "alarm_try env row ?fr = (out, (s2, lg2))"
      by (metis prod.exhaust)
    show ?thesis
    proof (cases out)
      case (Returns u)
      with nt row t have a: "alarm env s = (Returns (), s2)" by (simp add: alarm_nonterminal)
      from alarm_try_returns [OF t [unfolded Returns] r1] a show ?thesis by auto
    next
      case (Throws e')
      from alarm_try_throws_settles [OF row nt fk t [unfolded Throws]] show ?thesis by auto
    qed
  qed
  have fails: "status row \<noteq> st_done \<longrightarrow> status row \<noteq> st_error \<longrightarrow>
            (\<not> truthy (log_file_id row) \<longrightarrow> writeKladosLog env = Throws e \<longrightarrow>
               marks_error env s (error_message e))
          \<and> (callback_reached env row \<longrightarrow> processJob env = Throws e \<longrightarrow>
               marks_error env s (error_message e))
          \<and> (final_result env row result \<longrightarrow>
               rhiza (request row) = Some rz \<longrightarrow> outputs result = Some outs \<longrightarrow>
               api_get_entity env = Throws e \<longrightarrow>
               marks_error env s (error_message e))
          \<and> (final_result env row result \<longrightarrow>
               rhiza (request row) = Some rz \<longrightarrow> outputs result = Some outs \<longrightarrow>
               api_get_entity env = Returns resp \<longrightarrow>
               resp_error resp \<noteq> None \<or> resp_data resp = None \<longrightarrow>
               marks_error env s (''Failed to fetch rhiza: '' @ rhiza_id rz))
          \<and> (final_result env row result \<longrightarrow>
               rhiza (request row) = Some rz \<longrightarrow> outputs result = Some outs \<longrightarrow>
               api_get_entity env = Returns resp \<longrightarrow>
               resp_error resp = None \<longrightarrow> resp_data resp = Some ent \<longrightarrow>
               current_directive rz ent = Some d \<longrightarrow>
               interpretThen env = Throws e \<longrightarrow>
               marks_error env s (error_message e))
          \<and> (final_result env row result \<longrightarrow>
               rhiza (request row) = Some rz \<longrightarrow> outputs result = Some outs \<longrightarrow>
               api_get_entity env = Returns resp \<longrightarrow>
               resp_error resp = None \<longrightarrow> resp_data resp = Some ent \<longrightarrow>
               current_directive rz ent = Some d \<longrightarrow>
               interpretThen env = Returns hr \<longrightarrow> handoffRecord hr = Some h \<longrightarrow>
               updateLogWithHandoffs env = Throws e \<longrightarrow>
               marks_error env s (error_message e))
          \<and> (final_result env row result \<longrightarrow>
               rhiza (request row) = None \<or> outputs result = None
                 \<or> handoff_calls_return env \<longrightarrow>
               updateLogStatus env = Throws e \<longrightarrow>
               marks_error env s (error_message e))"
  proof (intro impI)
    assume nt: "status row \<noteq> st_done" "status row \<noteq> st_error"
    note me = marks_error_from_try [OF row nt fk]
    have lw: "\<not> truthy (log_file_id row) \<longrightarrow> writeKladosLog env = Throws e \<longrightarrow>
              marks_error env s (error_message e)"
      by (simp add: me alarm_try_log_write_throws)
    have cb: "callback_reached env row \<longrightarrow> processJob env = Throws e \<longrightarrow>
              marks_error env s (error_message e)"
      by (simp add: me alarm_try_callback_throws)
    have f1: "final_result env row result \<longrightarrow>
              rhiza (request row) = Some rz \<longrightarrow> outputs result = Some outs \<longrightarrow>
              api_get_entity env = Throws e \<longrightarrow>
              marks_error env s (error_message e)"
      by (simp add: me alarm_try_handoff_throws handoff_fetch_throws)
    have f2: "final_result env row result \<longrightarrow>
              rhiza (request row) = Some rz \<longrightarrow> outputs result = Some outs \<longrightarrow>
              api_get_entity env = Returns resp \<longrightarrow>
              resp_error resp \<noteq> None \<or> resp_data resp = None \<longrightarrow>
              marks_error env s (''Failed to fetch rhiza: '' @ rhiza_id rz)"
    proof (intro impI)
      assume a: "final_result env row result" "rhiza (request row) = Some rz"
        "outputs result = Some outs" "api_get_entity env = Returns resp"
        "resp_error resp \<noteq> None \<or> resp_data resp = None"
      have "fst (alarm_try env row ?fr) =
              Throws (ErrorObj (''Failed to fetch rhiza: '' @ rhiza_id rz))"
        by (rule alarm_try_handoff_throws [OF a(1)])
           (rule handoff_fetch_fails [OF a(2) a(3) a(4) a(5)])
      from me [OF this] show "marks_error env s (''Failed to fetch rhiza: '' @ rhiza_id rz)"
        by simp
    qed
    have it: "final_result env row result \<longrightarrow>
              rhiza (request row) = Some rz \<longrightarrow> outputs result = Some outs \<longrightarrow>
              api_get_entity env = Returns resp \<longrightarrow>
              resp_error resp = None \<longrightarrow> resp_data resp = Some ent \<longrightarrow>
              current_directive rz ent = Some d \<longrightarrow>
              interpretThen env = Throws e \<longrightarrow>
              marks_error env s (error_message e)"
      by (simp add: me alarm_try_handoff_throws handoff_interpreter_throws)
    have ap: "final_result env row result \<longrightarrow>
              rhiza (request row) = Some rz \<longrightarrow> outputs result = Some outs \<longrightarrow>
              api_get_entity env = Returns resp \<longrightarrow>
              resp_error resp = None \<longrightarrow> resp_data resp = Some ent \<longrightarrow>
              current_directive rz ent = Some d \<longrightarrow>
              interpretThen env = Returns hr \<longrightarrow> handoffRecord hr = Some h \<longrightarrow>
              updateLogWithHandoffs env = Throws e \<longrightarrow>
              marks_error env s (error_message e)"
      by (simp add: me alarm_try_handoff_throws handoff_append_throws)
    have fz: "final_result env row result \<longrightarrow>
              rhiza (request row) = None \<or> outputs result = None
                \<or> handoff_calls_return env \<longrightarrow>
              updateLogStatus env = Throws e \<longrightarrow>
              marks_error env s (error_message e)"
      by (intro impI me alarm_try_finalize_throws)
    from lw cb f1 f2 it ap fz
    show "(\<not> truthy (log_file_id row) \<longrightarrow> writeKladosLog env = Throws e \<longrightarrow>
               marks_error env s (error_message e))
          \<and> (callback_reached env row \<longrightarrow> processJob env = Throws e \<longrightarrow>
               marks_error env s (error_message e))
          \<and> (final_result env row result \<longrightarrow>
               rhiza (request row) = Some rz \<longrightarrow> outputs result = Some outs \<longrightarrow>
               api_get_entity env = Throws e \<longrightarrow>
               marks_error env s (error_message e))
          \<and> (final_result env row result \<longrightarrow>
               rhiza (request row) = Some rz \<longrightarrow> outputs result = Some outs \<longrightarrow>
               api_get_entity env = Returns resp \<longrightarrow>
               resp_error resp \<noteq> None \<or> resp_data resp = None \<longrightarrow>
               marks_error env s (''Failed to fetch rhiza: '' @ rhiza_id rz))
          \<and> (final_result env row result \<longrightarrow>
               rhiza (request row) = Some rz \<longrightarrow> outputs result = Some outs \<longrightarrow>
               api_get_entity env = Returns resp \<longrightarrow>
               resp_error resp = None \<longrightarrow> resp_data resp = Some ent \<longrightarrow>
               current_directive rz ent = Some d \<longrightarrow>
               interpretThen env = Throws e \<longrightarrow>
               marks_error env s (error_message e))
          \<and> (final_result env row result \<longrightarrow>
               rhiza (request row) = Some rz \<longrightarrow> outputs result = Some outs \<longrightarrow>
               api_get_entity env = Returns resp \<longrightarrow>
               resp_error resp = None \<longrightarrow> resp_data resp = Some ent \<longrightarrow>
               current_directive rz ent = Some d \<longrightarrow>
               interpretThen env = Returns hr \<longrightarrow> handoffRecord hr = Some h \<longrightarrow>
               updateLogWithHandoffs env = Throws e \<longrightarrow>
               marks_error env s (error_message e))
          \<and> (final_result env row result \<longrightarrow>
               rhiza (request row) = None \<or> outputs result = None
                 \<or> handoff_calls_return env \<longrightarrow>
               updateLogStatus env = Throws e \<longrightarrow>
               marks_error env s (error_message e))"
      by blast
  qed
  from settle fails show ?thesis by blast
qed

theorem alarm_escapes_only_from_failKlados_witness:
  "job_state ex_started 1 = Some ex_row
   \<and> log_file_id ex_row = None
   \<and> failKlados ex_env_log_store_down = Throws (ErrorObj ''log store down'')
   \<and> updateLogStatus ex_env_log_store_down = Throws (ErrorObj ''log store down'')
   \<and> marks_error ex_env_log_store_down ex_started ''log store down''
   \<and> interpretThen ex_env_interpreter_down = Throws (ErrorObj ''interpreter down'')
   \<and> marks_error ex_env_interpreter_down ex_workflow_started ''interpreter down''
   \<and> marks_error ex_env_throw ex_resumed ''X''"
proof -
  have h: "failKlados ex_env_log_store_down = Returns () \<or> \<not> truthy (log_file_id ex_row)"
    by (simp add: ex_row_def truthy_def)
  show ?thesis
    using alarm_escapes_only_from_failKlados [OF ex_started_row h]
    by (simp add: marks_error_def alarm_defs ex_defs)
qed

text \<open>
  Claim C6, as stated, fails for the same reason as claim C4: on a job whose log exists,
  the callback throws \<^verbatim>\<open>Error("X")\<close>, the failure finalizer throws, and the row is
  left in \<^verbatim>\<open>processing\<close> with no error message.
\<close>

theorem callback_error_counterexample:
  "processJob ex_env_throw_twice = Throws (ErrorObj ''X'')
   \<and> ProcessJob ex_request \<in> set (effects (snd (alarm ex_env_throw_twice ex_resumed)))
   \<and> map_option status (job_state (snd (alarm ex_env_throw_twice ex_resumed)) 1) =
       Some st_processing
   \<and> map_option error (job_state (snd (alarm ex_env_throw_twice ex_resumed)) 1) = Some None"
  by (simp add: alarm_defs ex_defs)

text \<open>
  Claim C6, amended. When the callback is invoked (the row is not terminal and the
  initial log write, if made, returns) and throws an \<^verbatim>\<open>Error\<close> with message \<open>X\<close>, and
  the failure finalizer returns normally or is not called because the row read at entry
  has no \<^verbatim>\<open>log_file_id\<close>, the alarm handler returns normally and leaves the row with
  status \<^verbatim>\<open>error\<close> and error \<open>X\<close>.
\<close>

theorem callback_error_is_recorded:
  assumes row: "job_state s 1 = Some row"
      and nt: "status row \<noteq> st_done" "status row \<noteq> st_error"
      and lw: "truthy (log_file_id row) \<or> (\<exists>f. writeKladosLog env = Returns f)"
      and pj: "processJob env = Throws (ErrorObj X)"
      and fk: "failKlados env = Returns () \<or> \<not> truthy (log_file_id row)"
  shows "fst (alarm env s) = Returns ()
       \<and> (\<exists>r'. job_state (snd (alarm env s)) 1 = Some r'
             \<and> status r' = st_error \<and> error r' = Some X)"
proof -
  let ?s1 = "sql_set_status st_processing s"
  have "fst (alarm_try env row (?s1, [])) = Throws (ErrorObj X)"
  proof (cases "truthy (log_file_id row)")
    case True
    with pj show ?thesis by (simp add: alarm_try_truthy)
  next
    case False
    with lw obtain f where "writeKladosLog env = Returns f" by auto
    with False pj show ?thesis by (simp add: alarm_try_log_returns)
  qed
  then obtain s2 lg2 where
    "alarm_try env row (?s1, []) = (Throws (ErrorObj X), (s2, lg2))"
    by (metis prod.collapse)
  from alarm_try_throws_settles [OF row nt fk this] show ?thesis by simp
qed

theorem callback_error_is_recorded_witness:
  "job_state ex_resumed 1 = Some (ex_row\<lparr>log_file_id := Some ''f1'', status := st_processing\<rparr>)
   \<and> processJob ex_env_throw = Throws (ErrorObj ''X'')
   \<and> failKlados ex_env_throw = Returns ()
   \<and> fst (alarm ex_env_throw ex_resumed) = Returns ()
   \<and> map_option status (job_state (snd (alarm ex_env_throw ex_resumed)) 1) = Some st_error
   \<and> map_option error (job_state (snd (alarm ex_env_throw ex_resumed)) 1) = Some (Some ''X'')"
proof -
  let ?row = "ex_row\<lparr>log_file_id := Some ''f1'', status := st_processing\<rparr>"
  have nt: "status ?row \<noteq> st_done" "status ?row \<noteq> st_error" by simp_all
  have lw: "truthy (log_file_id ?row) \<or> (\<exists>f. writeKladosLog ex_env_throw = Returns f)"
    by (simp add: truthy_def)
  have pj: "processJob ex_env_throw = Throws (ErrorObj ''X'')"
    by (simp add: ex_env_throw_def)
  have fk: "failKlados ex_env_throw = Returns () \<or> \<not> truthy (log_file_id ?row)"
    by (simp add: ex_env_throw_def ex_env_success_def)
  show ?thesis
    using callback_error_is_recorded [OF ex_resumed_row nt lw pj fk]
    by (simp add: alarm_defs ex_defs)
qed

subsection \<open>The error column\<close>

lemma step_error_iff_status:
  assumes inv: "error_iff_status s"
  shows "error_iff_status (step x s)"
proof (cases x)
  case (OpStart env req cfg)
  with inv show ?thesis
    by (cases "job_state s 1") (simp_all add: handleStart_no_row handleStart_existing)
next
  case OpStatus
  with inv show ?thesis by simp
next
  case (OpAlarm env)
  show ?thesis
  proof (cases "job_state s 1")
    case None
    with inv OpAlarm show ?thesis by (simp add: alarm_def select_one_def)
  next
    case (Some row)
    show ?thesis
    proof (cases "status row = st_done \<or> status row = st_error")
      case True
      with inv OpAlarm Some show ?thesis by (simp add: alarm_terminal [OF Some True])
    next
      case False
      with inv Some have "error row = None" by (simp add: error_iff_status_def)
      with alarm_row [OF Some, of env] False OpAlarm show ?thesis
        by (auto simp: error_iff_status_def)
    qed
  qed
qed

lemma run_error_iff_status: "error_iff_status s \<Longrightarrow> error_iff_status (run ops s)"
  by (induction ops arbitrary: s) (simp_all add: step_error_iff_status)

lemma step_keeps_row:
  assumes row: "job_state s 1 = Some r"
  shows "\<exists>r'. job_state (step x s) 1 = Some r'"
proof (cases x)
  case (OpStart env req cfg)
  with row show ?thesis by (simp add: handleStart_existing)
next
  case OpStatus
  with row show ?thesis by simp
next
  case (OpAlarm env)
  from alarm_row [OF row, of env] OpAlarm show ?thesis by auto
qed

lemma run_keeps_row: "job_state s 1 = Some r \<Longrightarrow> \<exists>r'. job_state (run ops s) 1 = Some r'"
proof (induction ops arbitrary: s r)
  case Nil
  then show ?case by simp
next
  case (Cons x xs)
  from step_keeps_row [OF Cons.prems, of x] obtain r1 where "job_state (step x s) 1 = Some r1"
    by auto
  from Cons.IH [OF this] show ?case by simp
qed

text \<open>
  Claim C8. From any state whose row 1 has \<^verbatim>\<open>error\<close> non-null exactly when its
  \<^verbatim>\<open>status\<close> is \<^verbatim>\<open>error\<close> (the row as the \<^verbatim>\<open>INSERT\<close> of \<^verbatim>\<open>handleStart\<close> writes
  it is one), every sequence of start, status and alarm operations, with any inputs and
  any behaviour of the collaborators, leads to a state that still has row 1, and there
  \<^verbatim>\<open>error\<close> is non-null exactly when \<^verbatim>\<open>status\<close> is \<^verbatim>\<open>error\<close>.
\<close>

theorem error_set_iff_status_error:
  assumes "job_state s 1 = Some row"
      and "(error row \<noteq> None) = (status row = st_error)"
  shows "\<exists>r. job_state (run ops s) 1 = Some r
             \<and> (error r \<noteq> None) = (status r = st_error)"
proof -
  from assms have "error_iff_status s" by (simp add: error_iff_status_def)
  from run_error_iff_status [OF this, of ops] run_keeps_row [OF assms(1), of ops]
  show ?thesis by (auto simp: error_iff_status_def)
qed

theorem error_set_iff_status_error_witness:
  "job_state ex_started 1 = Some ex_row
   \<and> error ex_row = None \<and> status ex_row = st_accepted
   \<and> job_state (run [OpAlarm ex_env_continue, OpStatus, OpAlarm ex_env_throw] ex_started) 1 =
       Some (ex_row\<lparr>log_file_id := Some ''f1'', status := st_error, error := Some ''X''\<rparr>)
   \<and> job_state (run [OpAlarm ex_env_continue] ex_started) 1 =
       Some (ex_row\<lparr>log_file_id := Some ''f1'', status := st_processing\<rparr>)"
proof -
  have h: "(error ex_row \<noteq> None) = (status ex_row = st_error)" by (simp add: ex_row_def)
  show ?thesis
    using error_set_iff_status_error [OF ex_started_row h,
            of "[OpAlarm ex_env_continue, OpStatus, OpAlarm ex_env_throw]"]
          error_set_iff_status_error [OF ex_started_row h, of "[OpAlarm ex_env_continue]"]
    by (simp add: alarm_defs ex_defs)
qed

subsection \<open>The failure finalizer and the log written in the same invocation\<close>

text \<open>
  Claim C1. The \<^verbatim>\<open>catch\<close> block decides whether to call \<^verbatim>\<open>failKlados\<close> from
  \<^verbatim>\<open>row.log_file_id\<close>, the value selected at entry, not from the \<^verbatim>\<open>logFileId\<close> the
  \<^verbatim>\<open>try\<close> block has just stored. On the first resumption of a job the log is written
  (file \<^verbatim>\<open>f1\<close>), the callback throws \<^verbatim>\<open>Error("X")\<close>, and the handler sets status
  \<^verbatim>\<open>error\<close> without any call of \<^verbatim>\<open>failKlados\<close>: the log record \<^verbatim>\<open>f1\<close> exists and is
  never told of the failure.
\<close>

theorem alarm_skips_failKlados_for_fresh_log:
  "fst (alarm ex_env_throw ex_started) = Returns ()
   \<and> job_state (snd (alarm ex_env_throw ex_started)) 1 =
       Some (ex_row\<lparr>log_file_id := Some ''f1'', status := st_error, error := Some ''X''\<rparr>)
   \<and> effects (snd (alarm ex_env_throw ex_started)) =
       effects ex_started @
       [SqlSetStatus st_processing,
        WriteKladosLog ''jc'' (make_log_entry ex_env_throw ex_row) [],
        SqlSetLogFileId ''f1'',
        ProcessJob ex_request,
        SqlSetError ''X'']
   \<and> filter is_FailKlados (effects (snd (alarm ex_env_throw ex_started))) = []"
  by (simp add: alarm_defs ex_defs)

subsection \<open>The continue outcome\<close>

lemma alarm_reschedule_truthy:
  assumes row: "job_state s 1 = Some row"
      and nt: "status row \<noteq> st_done" "status row \<noteq> st_error"
      and pj: "processJob env = Returns result" and rs: "reschedule result = Some True"
      and lf: "truthy (log_file_id row)"
  shows "alarm env s =
           (Returns (),
            setAlarm (now_ms env + 1000)
              (emit (ProcessJob (request row)) (sql_set_status st_processing s)))"
  using assms by (simp add: alarm_nonterminal alarm_try_truthy after_processJob_def)

lemma alarm_reschedule_fresh:
  assumes row: "job_state s 1 = Some row"
      and nt: "status row \<noteq> st_done" "status row \<noteq> st_error"
      and pj: "processJob env = Returns result" and rs: "reschedule result = Some True"
      and lf: "\<not> truthy (log_file_id row)" and wr: "writeKladosLog env = Returns fileId"
  shows "alarm env s =
           (Returns (),
            setAlarm (now_ms env + 1000)
              (emit (ProcessJob (request row))
                 (sql_set_log_file_id fileId
                    (emit (WriteKladosLog (job_collection (request row))
                             (make_log_entry env row) [])
                       (sql_set_status st_processing s)))))"
  using assms by (simp add: alarm_nonterminal alarm_try_log_returns after_processJob_def)

text \<open>
  Claim C7, as stated, fails on the first resumption of a job: the initial log is written
  before the callback runs, so when the callback signals continue the handler returns
  with \<^verbatim>\<open>log_file_id\<close> changed from \<^verbatim>\<open>NULL\<close> to the new file id.
\<close>

theorem continue_changes_log_file_id_counterexample:
  "continues ex_env_continue
   \<and> map_option log_file_id (job_state ex_started 1) = Some None
   \<and> fst (alarm ex_env_continue ex_started) = Returns ()
   \<and> map_option log_file_id (job_state (snd (alarm ex_env_continue ex_started)) 1) =
       Some (Some ''f1'')"
  by (simp add: continues_def alarm_defs ex_defs)

text \<open>
  Claim C7, amended. When the callback signals continue, the alarm handler returns
  normally with the alarm set to now + 1000 ms and with row 1 equal to the row read at
  entry except for \<^verbatim>\<open>status\<close>, which is \<^verbatim>\<open>processing\<close>, and for \<^verbatim>\<open>log_file_id\<close>,
  which is unchanged when it was set at entry and otherwise is the file id the initial
  log write returned; \<^verbatim>\<open>request\<close>, \<^verbatim>\<open>config\<close>, \<^verbatim>\<open>log_id\<close>, \<^verbatim>\<open>created_at\<close> and
  \<^verbatim>\<open>error\<close> are unchanged. No handoff call and no log finalisation is made. The
  code that handles the continue outcome, which runs once the callback has returned,
  writes nothing to the table.
\<close>

theorem continue_reschedules_and_keeps_row:
  assumes row: "job_state s 1 = Some row"
      and nt: "status row \<noteq> st_done" "status row \<noteq> st_error"
      and pj: "processJob env = Returns result" and rs: "reschedule result = Some True"
      and lw: "truthy (log_file_id row) \<or> writeKladosLog env = Returns fileId"
  shows "fst (alarm env s) = Returns ()
       \<and> alarm_at (snd (alarm env s)) = Some (now_ms env + 1000)
       \<and> job_state (snd (alarm env s)) 1 =
           Some (row\<lparr>status := st_processing,
                     log_file_id := (if truthy (log_file_id row) then log_file_id row
                                     else Some fileId)\<rparr>)
       \<and> filter is_handoff_or_finalize (effects (snd (alarm env s))) =
           filter is_handoff_or_finalize (effects s)
       \<and> job_state (fst (snd (after_processJob env row f result (s', lg)))) = job_state s'"
proof (cases "truthy (log_file_id row)")
  case True
  with row rs show ?thesis
    by (simp add: alarm_reschedule_truthy [OF row nt pj rs True] storage_simps
        after_processJob_def)
next
  case False
  with lw have wr: "writeKladosLog env = Returns fileId" by simp
  from False row rs show ?thesis
    by (simp add: alarm_reschedule_fresh [OF row nt pj rs False wr] storage_simps
        after_processJob_def)
qed

theorem continue_reschedules_and_keeps_row_witness:
  "job_state ex_resumed 1 = Some (ex_row\<lparr>log_file_id := Some ''f1'', status := st_processing\<rparr>)
   \<and> processJob ex_env_continue = Returns \<lparr>outputs = Some [''o1''], reschedule = Some True\<rparr>
   \<and> fst (alarm ex_env_continue ex_resumed) = Returns ()
   \<and> alarm_at (snd (alarm ex_env_continue ex_resumed)) = Some 1200
   \<and> job_state (snd (alarm ex_env_continue ex_resumed)) 1 = job_state ex_resumed 1
   \<and> filter is_handoff_or_finalize (effects (snd (alarm ex_env_continue ex_resumed))) = []"
proof -
  let ?row = "ex_row\<lparr>log_file_id := Some ''f1'', status := st_processing\<rparr>"
  let ?res = "\<lparr>outputs = Some [''o1''], reschedule = Some True\<rparr>"
  have nt: "status ?row \<noteq> st_done" "status ?row \<noteq> st_error" by simp_all
  have pj: "processJob ex_env_continue = Returns ?res"
    by (simp add: ex_env_continue_def)
  have rs: "reschedule ?res = Some True" by simp
  have lw: "truthy (log_file_id ?row) \<or> writeKladosLog ex_env_continue = Returns ''f1''"
    by (simp add: truthy_def)
  show ?thesis
    using continue_reschedules_and_keeps_row [OF ex_resumed_row nt pj rs lw]
    by (simp add: alarm_defs ex_defs)
qed

text \<open>
  Claim C10. When the callback returns a result with \<^verbatim>\<open>reschedule = true\<close> and outputs
  that are not empty, the alarm handler returns normally, the alarm is set to
  now + 1000 ms, the status is \<^verbatim>\<open>processing\<close>, and what the invocation adds to the trace
  is the status update, the initial log write if the row had no \<^verbatim>\<open>log_file_id\<close>, the
  callback and the alarm: no entity fetch, no interpreter call, no handoff append, no
  log finalisation. The outputs are discarded: the same result without outputs gives
  the same state.
\<close>

theorem reschedule_takes_precedence:
  assumes row: "job_state s 1 = Some row"
      and nt: "status row \<noteq> st_done" "status row \<noteq> st_error"
      and pj: "processJob env = Returns result"
      and rs: "reschedule result = Some True"
      and outs: "outputs result = Some outs" "outs \<noteq> []"
      and lw: "truthy (log_file_id row) \<or> writeKladosLog env = Returns fileId"
  shows "fst (alarm env s) = Returns ()
       \<and> alarm_at (snd (alarm env s)) = Some (now_ms env + 1000)
       \<and> map_option status (job_state (snd (alarm env s)) 1) = Some st_processing
       \<and> effects (snd (alarm env s)) =
           effects s @ [SqlSetStatus st_processing]
           @ (if truthy (log_file_id row) then []
              else [WriteKladosLog (job_collection (request row)) (make_log_entry env row) [],
                    SqlSetLogFileId fileId])
           @ [ProcessJob (request row), SetAlarm (now_ms env + 1000)]
       \<and> alarm (env\<lparr>processJob := Returns (result\<lparr>outputs := None\<rparr>)\<rparr>) s = alarm env s"
proof (cases "truthy (log_file_id row)")
  case True
  have pj': "processJob (env\<lparr>processJob := Returns (result\<lparr>outputs := None\<rparr>)\<rparr>) =
               Returns (result\<lparr>outputs := None\<rparr>)" by simp
  have rs': "reschedule (result\<lparr>outputs := None\<rparr>) = Some True" using rs by simp
  from True row show ?thesis
    by (simp add: alarm_reschedule_truthy [OF row nt pj rs True]
        alarm_reschedule_truthy [OF row nt pj' rs' True] storage_simps)
next
  case False
  with lw have wr: "writeKladosLog env = Returns fileId" by simp
  have pj': "processJob (env\<lparr>processJob := Returns (result\<lparr>outputs := None\<rparr>)\<rparr>) =
               Returns (result\<lparr>outputs := None\<rparr>)" by simp
  have rs': "reschedule (result\<lparr>outputs := None\<rparr>) = Some True" using rs by simp
  have wr': "writeKladosLog (env\<lparr>processJob := Returns (result\<lparr>outputs := None\<rparr>)\<rparr>) =
               Returns fileId" using wr by simp
  from False row show ?thesis
    by (simp add: alarm_reschedule_fresh [OF row nt pj rs False wr]
        alarm_reschedule_fresh [OF row nt pj' rs' False wr'] storage_simps make_log_entry_def)
qed

theorem reschedule_takes_precedence_witness:
  "job_state ex_started 1 = Some ex_row
   \<and> processJob ex_env_continue = Returns \<lparr>outputs = Some [''o1''], reschedule = Some True\<rparr>
   \<and> fst (alarm ex_env_continue ex_started) = Returns ()
   \<and> alarm_at (snd (alarm ex_env_continue ex_started)) = Some 1200
   \<and> map_option status (job_state (snd (alarm ex_env_continue ex_started)) 1) =
       Some st_processing
   \<and> effects (snd (alarm ex_env_continue ex_started)) =
       [SqlInsert ex_row, SetAlarm 100, SqlSetStatus st_processing,
        WriteKladosLog ''jc'' (make_log_entry ex_env_continue ex_row) [],
        SqlSetLogFileId ''f1'', ProcessJob ex_request, SetAlarm 1200]"
proof -
  let ?res = "\<lparr>outputs = Some [''o1''], reschedule = Some True\<rparr>"
  have nt: "status ex_row \<noteq> st_done" "status ex_row \<noteq> st_error"
    by (simp_all add: ex_row_def)
  have pj: "processJob ex_env_continue = Returns ?res"
    by (simp add: ex_env_continue_def)
  have rs: "reschedule ?res = Some True" by simp
  have outs: "outputs ?res = Some [''o1'']" "[''o1''] \<noteq> []" by simp_all
  have lw: "truthy (log_file_id ex_row) \<or> writeKladosLog ex_env_continue = Returns ''f1''"
    by (simp add: ex_env_continue_def ex_env_success_def)
  show ?thesis
    using reschedule_takes_precedence [OF ex_started_row nt pj rs outs lw]
    by (simp add: alarm_defs ex_defs)
qed

subsection \<open>The continue loop\<close>






















end
